theory Spec2Isabelle
  imports Main
begin

section \<open>The Unix crash logger of OpenTTD\<close>

text \<open>
  A shallow embedding of \<^verbatim>\<open>src/os/unix/crashlog_unix.cpp\<close>: the three section
  producers of class \<^verbatim>\<open>CrashLogUnix\<close>, its dump writer, the signal table, the
  crash handler \<^verbatim>\<open>HandleCrash\<close> and \<^verbatim>\<open>CrashLog::InitialiseCrashLog\<close>.

  The file talks to the operating system (\<^verbatim>\<open>uname\<close>, \<^verbatim>\<open>strerror\<close>,
  \<^verbatim>\<open>strsignal\<close>, \<^verbatim>\<open>backtrace\<close>, \<^verbatim>\<open>backtrace_symbols\<close>, \<^verbatim>\<open>signal\<close>,
  \<^verbatim>\<open>abort\<close>), to the fmt library and to other translation units of the game.
  What those return is collected in a record \<open>env\<close>; every function below takes it
  as its first argument. What the code does to the world (calls of \<^verbatim>\<open>signal\<close>,
  output, calls into other translation units, a fault, \<^verbatim>\<open>abort\<close>) is recorded, in
  order, in the trace of a \<open>process\<close>.
\<close>

subsection \<open>Formatting\<close>

text \<open>
  The replacement fields of fmt that the file uses: \<^verbatim>\<open>{}\<close> on an \<^verbatim>\<open>int\<close>
  (decimal, a minus sign in front of a negative number), \<^verbatim>\<open>{:02}\<close> on an
  \<^verbatim>\<open>int\<close> (the same, padded with zeros to two characters), and \<^verbatim>\<open>{}\<close> on a
  string (the string itself).
\<close>

definition digit :: "nat \<Rightarrow> char" where
  "digit d = ''0123456789'' ! d"

function decimal :: "nat \<Rightarrow> string" where
  "decimal n = (if n < 10 then [digit n] else decimal (n div 10) @ [digit (n mod 10)])"
  by pat_completeness auto
termination
  by (relation "measure (\<lambda>n. n)") auto

declare decimal.simps [simp del]

definition fmt_int :: "int \<Rightarrow> string" where
  "fmt_int i = (if i < 0 then CHR ''-'' # decimal (nat (- i)) else decimal (nat i))"

definition fmt_int_02 :: "int \<Rightarrow> string" where
  "fmt_int_02 i =
     (if i < 0 then CHR ''-'' # decimal (nat (- i))
      else if i < 10 then CHR ''0'' # decimal (nat i)
      else decimal (nat i))"

subsection \<open>The environment\<close>

text \<open>\<^verbatim>\<open>struct utsname\<close> of \<^verbatim>\<open><sys/utsname.h>\<close>.\<close>

record utsname =
  sysname :: string
  nodename :: string
  release :: string
  version :: string
  machine :: string

type_synonym address = nat

text \<open>
  The build configuration (the two preprocessor symbols the file tests) and the answers
  of the operating system and of the other translation units at the time of the crash.
  \<^item> \<open>uname_ret\<close>, \<open>uname_buf\<close>, \<open>errno\<close>: the return value of \<^verbatim>\<open>uname(&name)\<close>, the
    structure it filled in, and \<^verbatim>\<open>errno\<close> after the call.
  \<^item> \<open>call_stack\<close>: the return addresses of the crashing thread, innermost first;
    \<open>symbol\<close>: the description \<^verbatim>\<open>backtrace_symbols\<close> gives of an address;
    \<open>symbols_malloc_fails\<close>: whether the allocation inside \<^verbatim>\<open>backtrace_symbols\<close> fails.
  \<^item> \<open>minidump_succeeded\<close>: the \<^verbatim>\<open>succeeded\<close> flag Breakpad hands to the callback.
  \<^item> \<open>TestEmergency\<close>: \<^verbatim>\<open>_gamelog.TestEmergency()\<close>;
    \<open>SaveloadCrashWithMissingNewGRFs\<close>: \<^verbatim>\<open>SaveloadCrashWithMissingNewGRFs()\<close>.
  \<^item> \<open>base_dump_status\<close>: what the base-class \<^verbatim>\<open>CrashLog::WriteCrashDump\<close> returns.
    It is defined in crashlog.cpp; a build without Breakpad has no override and runs it.
  \<^item> \<open>crash_message\<close>: the message the report assembler hands to \<^verbatim>\<open>LogError\<close>;
    \<open>state_sections\<close>: the text blocks other parts of the game add to the report.
\<close>

record env =
  GLIBC :: bool
  WITH_UNOFFICIAL_BREAKPAD :: bool
  uname_ret :: int
  uname_buf :: utsname
  errno :: int
  strerror :: "int \<Rightarrow> string"
  strsignal :: "int \<Rightarrow> string"
  call_stack :: "address list"
  symbol :: "address \<Rightarrow> string"
  symbols_malloc_fails :: bool
  minidump_succeeded :: bool
  TestEmergency :: bool
  SaveloadCrashWithMissingNewGRFs :: bool
  base_dump_status :: int
  crash_message :: string
  state_sections :: "string list"

subsection \<open>Signals and the process\<close>

text \<open>
  Signal numbers are \<^verbatim>\<open>int\<close>s. The five names the file uses come from
  \<^verbatim>\<open><signal.h>\<close>; the numbers are those of Linux on x86 and ARM.
\<close>

type_synonym signum = int

definition SIGILL :: signum where "SIGILL = 4"
definition SIGABRT :: signum where "SIGABRT = 6"
definition SIGBUS :: signum where "SIGBUS = 7"
definition SIGFPE :: signum where "SIGFPE = 8"
definition SIGSEGV :: signum where "SIGSEGV = 11"

text \<open>
  A disposition is the default action, ignoring the signal, or a handler; the only
  handler this file ever installs is \<^verbatim>\<open>HandleCrash\<close>.
\<close>

datatype sighandler = SIG_DFL | SIG_IGN | HandleCrash_ptr

datatype stream = Stdout | Stderr

datatype event =
    Call_signal signum sighandler
  | Call_TestEmergency
  | Call_SaveloadCrashWithMissingNewGRFs
  | Call_print stream string
  | Call_WriteCrashLog signum
  | Call_WriteMinidump
  | Call_rename
  | Call_WriteCrashDump int
  | Call_AfterCrashLogCleanup
  | Call_abort
  | Fault_raised signum

text \<open>
  What the operating system does with a signal raised in a process: it looks the
  signal up in the disposition table.
\<close>

datatype delivery = Default_action | Ignored | Enters_HandleCrash

definition deliver :: "(signum \<Rightarrow> sighandler) \<Rightarrow> signum \<Rightarrow> delivery" where
  "deliver d sig =
     (case d sig of
        SIG_DFL \<Rightarrow> Default_action
      | SIG_IGN \<Rightarrow> Ignored
      | HandleCrash_ptr \<Rightarrow> Enters_HandleCrash)"

text \<open>
  A process is running, has called \<^verbatim>\<open>abort\<close>, or has raised a signal by a fault of
  its own; in the last case the status says how the signal was delivered.
\<close>

datatype status = Running | Aborted | Signalled signum delivery

text \<open>
  The state of a process: the disposition table, the trace, and for every event of the
  trace the disposition table that was in force right after it (\<open>table_at\<close>, a history of
  the table; the code has no such variable).
\<close>

record process =
  disposition :: "signum \<Rightarrow> sighandler"
  trace :: "event list"
  table_at :: "(signum \<Rightarrow> sighandler) list"
  status :: status

definition call :: "event \<Rightarrow> process \<Rightarrow> process" where
  "call ev p = p\<lparr>trace := trace p @ [ev], table_at := table_at p @ [disposition p]\<rparr>"

text \<open>\<^verbatim>\<open>signal(sig, handler)\<close>: sets the disposition of one signal.\<close>

definition signal :: "signum \<Rightarrow> sighandler \<Rightarrow> process \<Rightarrow> process" where
  "signal sig h p = call (Call_signal sig h) (p\<lparr>disposition := (disposition p)(sig := h)\<rparr>)"

text \<open>\<^verbatim>\<open>fmt::print(text)\<close> without a stream argument writes to the standard output.\<close>

definition fmt_print :: "string \<Rightarrow> process \<Rightarrow> process" where
  "fmt_print s p = call (Call_print Stdout s) p"

text \<open>\<^verbatim>\<open>abort()\<close> ends the process; it does not return.\<close>

definition abort :: "process \<Rightarrow> process" where
  "abort p = (call Call_abort p)\<lparr>status := Aborted\<rparr>"

subsection \<open>The section producers of \<^verbatim>\<open>CrashLogUnix\<close>\<close>

text \<open>The class has one field, the signal that was thrown.\<close>

record CrashLogUnix =
  signum :: int

text \<open>
  A producer appends to the string behind \<^verbatim>\<open>output_iterator\<close>; in the model it takes
  the text written so far and returns the text after its appends.
\<close>

definition LogOSVersion :: "env \<Rightarrow> string \<Rightarrow> string" where
  "LogOSVersion e out =
     (if uname_ret e < 0 then
        out @ ''Could not get OS version: '' @ strerror e (errno e) @ ''\<newline>''
      else
        out @ ''Operating system:\<newline>''
            @ '' Name:     '' @ sysname (uname_buf e) @ ''\<newline>''
            @ '' Release:  '' @ release (uname_buf e) @ ''\<newline>''
            @ '' Version:  '' @ version (uname_buf e) @ ''\<newline>''
            @ '' Machine:  '' @ machine (uname_buf e) @ ''\<newline>'')"

definition LogError :: "env \<Rightarrow> CrashLogUnix \<Rightarrow> string \<Rightarrow> string \<Rightarrow> string" where
  "LogError e this out message =
     out @ ''Crash reason:\<newline>''
         @ '' Signal:  '' @ strsignal e (signum this) @ '' ('' @ fmt_int (signum this) @ '')\<newline>''
         @ '' Message: '' @ message @ ''\<newline>'' @ ''\<newline>''"

text \<open>
  \<^verbatim>\<open>backtrace(buffer, sz)\<close> stores at most \<open>sz\<close> return addresses and returns how
  many it stored. \<^verbatim>\<open>backtrace_symbols(buffer, sz)\<close> returns a freshly allocated array
  of \<open>sz\<close> strings, or \<^verbatim>\<open>NULL\<close> when the allocation fails.
\<close>

definition backtrace :: "env \<Rightarrow> nat \<Rightarrow> address list" where
  "backtrace e sz = take sz (call_stack e)"

definition backtrace_symbols :: "env \<Rightarrow> address list \<Rightarrow> nat \<Rightarrow> string list option" where
  "backtrace_symbols e buffer sz =
     (if symbols_malloc_fails e then None else Some (map (symbol e) (take sz buffer)))"

text \<open>
  Reading \<^verbatim>\<open>messages[i]\<close>: the source has no guard, so a \<^verbatim>\<open>NULL\<close> array or an index
  past its end is a fault of the process, not a value.
\<close>

datatype fault = Null_dereference | Out_of_bounds

definition messages_at :: "string list option \<Rightarrow> nat \<Rightarrow> fault + string" where
  "messages_at messages i =
     (case messages of
        None \<Rightarrow> Inl Null_dereference
      | Some ms \<Rightarrow> if i < length ms then Inr (ms ! i) else Inl Out_of_bounds)"

text \<open>The loop \<^verbatim>\<open>for (int i = 0; i < trace_size; i++)\<close>, started at any \<open>i\<close>.\<close>

function LogStacktrace_loop :: "string list option \<Rightarrow> nat \<Rightarrow> nat \<Rightarrow> string \<Rightarrow> fault + string" where
  "LogStacktrace_loop messages trace_size i out =
     (if i < trace_size then
        (case messages_at messages i of
           Inl f \<Rightarrow> Inl f
         | Inr m \<Rightarrow>
             LogStacktrace_loop messages trace_size (Suc i)
               (out @ '' ['' @ fmt_int_02 (int i) @ ''] '' @ m @ ''\<newline>''))
      else Inr out)"
  by pat_completeness auto
termination
  by (relation "measure (\<lambda>(messages, trace_size, i, out). trace_size - i)") auto

declare LogStacktrace_loop.simps [simp del]

definition LogStacktrace :: "env \<Rightarrow> string \<Rightarrow> fault + string" where
  "LogStacktrace e out =
     (let out1 = out @ ''Stacktrace:\<newline>'' in
      if GLIBC e then
        (let trace_buf = backtrace e 64;
             trace_size = length trace_buf;
             messages = backtrace_symbols e trace_buf trace_size
         in case LogStacktrace_loop messages trace_size 0 out1 of
              Inl f \<Rightarrow> Inl f
            | Inr out2 \<Rightarrow> Inr (out2 @ ''\<newline>''))
      else Inr (out1 @ '' Not supported.\<newline>'' @ ''\<newline>''))"

subsection \<open>The dump writer\<close>

text \<open>
  \<^verbatim>\<open>MinidumpCallback\<close> moves the dump Breakpad wrote to the crash dump's file name and
  passes Breakpad's \<^verbatim>\<open>succeeded\<close> flag on.
\<close>

definition MinidumpCallback :: "bool \<Rightarrow> process \<Rightarrow> bool \<times> process" where
  "MinidumpCallback succeeded p = (succeeded, call Call_rename p)"

text \<open>
  \<^verbatim>\<open>google_breakpad::ExceptionHandler::WriteMinidump(dir, callback, context)\<close> writes
  the dump, calls the callback with the outcome and returns what the callback returns.
\<close>

definition WriteMinidump :: "env \<Rightarrow> (bool \<Rightarrow> process \<Rightarrow> bool \<times> process) \<Rightarrow> process \<Rightarrow> bool \<times> process" where
  "WriteMinidump e callback p = callback (minidump_succeeded e) (call Call_WriteMinidump p)"

text \<open>
  \<^verbatim>\<open>CrashLogUnix::WriteCrashDump\<close>, an override that exists only under
  \<^verbatim>\<open>WITH_UNOFFICIAL_BREAKPAD\<close>; without it the call reaches the base class, whose
  status is the parameter \<open>base_dump_status\<close> of the environment.
\<close>

definition WriteCrashDump :: "env \<Rightarrow> process \<Rightarrow> int \<times> process" where
  "WriteCrashDump e p =
     (if WITH_UNOFFICIAL_BREAKPAD e then
        (case WriteMinidump e MinidumpCallback p of
           (ok, p') \<Rightarrow> (if ok then 1 else - 1, p'))
      else (base_dump_status e, p))"

subsection \<open>The crash handler\<close>

definition signals_to_handle :: "signum list" where
  "signals_to_handle = [SIGSEGV, SIGABRT, SIGFPE, SIGBUS, SIGILL]"

text \<open>
  The loop \<^verbatim>\<open>for (const int *i = _signals_to_handle; i != endof(_signals_to_handle); i++)
  signal(*i, handler)\<close>, which the file runs twice: with \<^verbatim>\<open>SIG_DFL\<close> in the handler and
  with \<^verbatim>\<open>HandleCrash\<close> at start-up.
\<close>

primrec signal_each :: "signum list \<Rightarrow> sighandler \<Rightarrow> process \<Rightarrow> process" where
  "signal_each [] h p = p"
| "signal_each (s # ss) h p = signal_each ss h (signal s h p)"

text \<open>
  Modelled from the spec: the report assembler \<^verbatim>\<open>CrashLog::FillCrashLog\<close>, defined in
  crashlog.cpp. It "invokes, in fixed order, a list of section producers, each appending
  to the shared Report Buffer: 1. OS/platform identification, 2. Error/fault description,
  3. Stack trace, 4. Zero or more application-state sections supplied by collaborators".
  The first three are the producers of this file. A producer that faults (the stack-trace
  producer reading through a null pointer) does not return, and neither does the
  assembler.
\<close>

definition FillCrashLog :: "env \<Rightarrow> CrashLogUnix \<Rightarrow> fault + string" where
  "FillCrashLog e log =
     (let buf1 = LogOSVersion e [];
          buf2 = LogError e log buf1 (crash_message e)
      in case LogStacktrace e buf2 of
           Inl f \<Rightarrow> Inl f
         | Inr buf3 \<Rightarrow> Inr (buf3 @ concat (state_sections e)))"

text \<open>
  Modelled from the spec: what \<^verbatim>\<open>CrashLog::MakeCrashLog\<close> (crashlog.cpp) does once the
  report is assembled. "Reporting: [...] write the resulting buffer to the diagnostic
  artifact path. Dumping: if a native dump facility is compiled in, invoke the Dump
  Writer; a dump failure is non-fatal and does not block proceeding to cleanup." Writing
  the report file is one event, the dump writer's status another; the function returns
  whatever the status was.
\<close>

definition write_report_and_dump :: "env \<Rightarrow> CrashLogUnix \<Rightarrow> process \<Rightarrow> process" where
  "write_report_and_dump e log p =
     (case WriteCrashDump e (call (Call_WriteCrashLog (signum log)) p) of
        (dret, p') \<Rightarrow> call (Call_WriteCrashDump dret) p')"

text \<open>
  Modelled from the spec: \<^verbatim>\<open>CrashLog::MakeCrashLog\<close>, defined in crashlog.cpp:
  "invoke the Report Assembler", then write the report and the dump. If a producer
  faults, the call does not return: the fault is the result.
\<close>

definition MakeCrashLog :: "env \<Rightarrow> CrashLogUnix \<Rightarrow> process \<Rightarrow> fault + process" where
  "MakeCrashLog e log p =
     (case FillCrashLog e log of
        Inl f \<Rightarrow> Inl f
      | Inr report \<Rightarrow> Inr (write_report_and_dump e log p))"

text \<open>
  Modelled from the spec: \<^verbatim>\<open>CrashLog::AfterCrashLogCleanup\<close>, defined in
  crashlog.cpp. "Collaborator: cleanup hook: a single no-argument operation invoked once
  during CleaningUp; must not fail loudly." The call is one event, and it returns.
\<close>

definition AfterCrashLogCleanup :: "process \<Rightarrow> process" where
  "AfterCrashLogCleanup p = call Call_AfterCrashLogCleanup p"

text \<open>
  A fault of the process while it runs (here: inside the handler). Reading through a
  null pointer or past an array raises SIGSEGV; the operating system delivers the signal
  by the disposition table in force, and the process does not go on.
\<close>

definition fault_signal :: "fault \<Rightarrow> signum" where
  "fault_signal f = SIGSEGV"

definition raise_fault :: "fault \<Rightarrow> process \<Rightarrow> process" where
  "raise_fault f p =
     (call (Fault_raised (fault_signal f)) p)
       \<lparr>status := Signalled (fault_signal f) (deliver (disposition p) (fault_signal f))\<rparr>"

definition HandleCrash :: "env \<Rightarrow> signum \<Rightarrow> process \<Rightarrow> process" where
  "HandleCrash e sig p =
     (let p1 = signal_each signals_to_handle SIG_DFL p;
          p2 = call Call_TestEmergency p1
      in if TestEmergency e then
           (let p3 = fmt_print ''A serious fault condition occurred in the game. The game will shut down.\<newline>'' p2;
                p4 = fmt_print ''As you loaded an emergency savegame no crash information will be generated.\<newline>'' p3
            in abort p4)
         else
           (let p3 = call Call_SaveloadCrashWithMissingNewGRFs p2
            in if SaveloadCrashWithMissingNewGRFs e then
                 (let p4 = fmt_print ''A serious fault condition occurred in the game. The game will shut down.\<newline>'' p3;
                      p5 = fmt_print ''As you loaded an savegame for which you do not have the required NewGRFs\<newline>'' p4;
                      p6 = fmt_print ''no crash information will be generated.\<newline>'' p5
                  in abort p6)
               else
                 (let log = \<lparr>signum = sig\<rparr>
                  in case MakeCrashLog e log p3 of
                       Inl f \<Rightarrow> raise_fault f p3
                     | Inr p4 \<Rightarrow>
                         (let p5 = AfterCrashLogCleanup p4
                          in abort p5))))"

definition InitialiseCrashLog :: "process \<Rightarrow> process" where
  "InitialiseCrashLog p = signal_each signals_to_handle HandleCrash_ptr p"

text \<open>\<^verbatim>\<open>CrashLog::InitThread\<close> has an empty body.\<close>

definition InitThread :: "process \<Rightarrow> process" where
  "InitThread p = p"

subsection \<open>Observing a run\<close>

text \<open>
  The events a run added to the trace of the process it started from, and the
  disposition tables that were in force right after each of them.
\<close>

definition events_since :: "process \<Rightarrow> process \<Rightarrow> event list" where
  "events_since p q = drop (length (trace p)) (trace q)"

definition tables_since :: "process \<Rightarrow> process \<Rightarrow> (signum \<Rightarrow> sighandler) list" where
  "tables_since p q = drop (length (table_at p)) (table_at q)"

text \<open>The texts printed to one stream, in order.\<close>

fun printed :: "stream \<Rightarrow> event list \<Rightarrow> string list" where
  "printed st [] = []"
| "printed st (Call_print st' s # evs) = (if st' = st then s # printed st evs else printed st evs)"
| "printed st (_ # evs) = printed st evs"

text \<open>The five calls the handler starts with.\<close>

definition resets :: "event list" where
  "resets = [Call_signal SIGSEGV SIG_DFL, Call_signal SIGABRT SIG_DFL, Call_signal SIGFPE SIG_DFL,
     Call_signal SIGBUS SIG_DFL, Call_signal SIGILL SIG_DFL]"

text \<open>The events of the dump writer (none in a build without Breakpad) and its status.\<close>

definition dump_events :: "env \<Rightarrow> event list" where
  "dump_events e = (if WITH_UNOFFICIAL_BREAKPAD e then [Call_WriteMinidump, Call_rename] else [])"

definition dump_status :: "env \<Rightarrow> int" where
  "dump_status e =
     (if WITH_UNOFFICIAL_BREAKPAD e then (if minidump_succeeded e then 1 else - 1)
      else base_dump_status e)"

text \<open>
  The situation in which the stack-trace producer faults: glibc, at least one frame on
  the call stack, and \<^verbatim>\<open>backtrace_symbols\<close> returning \<^verbatim>\<open>NULL\<close>.
\<close>

definition stack_trace_faults :: "env \<Rightarrow> bool" where
  "stack_trace_faults e = (GLIBC e \<and> symbols_malloc_fails e \<and> call_stack e \<noteq> [])"

subsection \<open>Reading a text line by line, and a number digit by digit\<close>

text \<open>
  The lines of a text: each newline ends a line, and what follows the last newline is a
  line if it is not empty. \<open>split_lines cur s\<close> has read \<open>cur\<close> of the current line.
\<close>

fun split_lines :: "string \<Rightarrow> string \<Rightarrow> string list" where
  "split_lines cur [] = (if cur = [] then [] else [cur])"
| "split_lines cur (c # cs) =
     (if c = CHR ''\<newline>'' then cur # split_lines [] cs else split_lines (cur @ [c]) cs)"

definition lines_of :: "string \<Rightarrow> string list" where
  "lines_of s = split_lines [] s"

text \<open>
  Reading a decimal numeral back, independently of how it was printed: the value of a
  digit is its distance from the character 0, and each further digit multiplies what was
  read by ten. A leading minus sign negates.
\<close>

definition digit_value :: "char \<Rightarrow> nat" where
  "digit_value c = of_char c - of_char (CHR ''0'')"

definition read_nat :: "string \<Rightarrow> nat" where
  "read_nat s = foldl (\<lambda>a c. 10 * a + digit_value c) 0 s"

definition read_int :: "string \<Rightarrow> int" where
  "read_int s =
     (if s \<noteq> [] \<and> hd s = CHR ''-'' then - int (read_nat (tl s)) else int (read_nat s))"

text \<open>
  The line the stack-trace producer writes for frame \<open>i\<close> of the call stack, without
  its newline: the format \<^verbatim>\<open>" [{:02}] {}"\<close> applied to \<open>i\<close> and the frame's symbol.
\<close>

definition frame_line :: "env \<Rightarrow> nat \<Rightarrow> string" where
  "frame_line e i = '' ['' @ fmt_int_02 (int i) @ ''] '' @ symbol e (call_stack e ! i)"

subsection \<open>A concrete process and environment\<close>

text \<open>
  A process that has just started and has run \<^verbatim>\<open>CrashLog::InitialiseCrashLog\<close>, on a
  Linux machine with glibc and Breakpad, where writing a minidump fails.
\<close>

definition process_start :: process where
  "process_start = \<lparr>disposition = (\<lambda>s. SIG_DFL), trace = [], table_at = [], status = Running\<rparr>"

definition armed :: process where
  "armed = InitialiseCrashLog process_start"

definition linux_uts :: utsname where
  "linux_uts = \<lparr>sysname = ''Linux'', nodename = ''host'', release = ''6.1.0'',
     version = ''#1 SMP'', machine = ''x86_64''\<rparr>"

definition env_linux :: env where
  "env_linux = \<lparr>GLIBC = True, WITH_UNOFFICIAL_BREAKPAD = True, uname_ret = 0, uname_buf = linux_uts,
     errno = 0, strerror = (\<lambda>n. ''Bad address''), strsignal = (\<lambda>n. ''Segmentation fault''),
     call_stack = [4198400, 4198912],
     symbol = (\<lambda>a. if a = 4198400 then ''./openttd(+0x1000) [0x401000]''
       else ''./openttd(+0x1200) [0x401200]''),
     symbols_malloc_fails = False, minidump_succeeded = False,
     TestEmergency = False, SaveloadCrashWithMissingNewGRFs = False,
     base_dump_status = 0, crash_message = ''NewGRF load failure'', state_sections = []\<rparr>"

section \<open>Facts about the building blocks\<close>

lemmas signal_numbers = SIGILL_def SIGABRT_def SIGBUS_def SIGFPE_def SIGSEGV_def

subsection \<open>Single steps\<close>

lemma trace_call [simp]: "trace (call ev p) = trace p @ [ev]"
  and table_at_call [simp]: "table_at (call ev p) = table_at p @ [disposition p]"
  and disposition_call [simp]: "disposition (call ev p) = disposition p"
  and status_call [simp]: "status (call ev p) = status p"
  by (simp_all add: call_def)

lemma trace_signal [simp]: "trace (signal s h p) = trace p @ [Call_signal s h]"
  and table_at_signal [simp]: "table_at (signal s h p) = table_at p @ [(disposition p)(s := h)]"
  and disposition_signal [simp]: "disposition (signal s h p) = (disposition p)(s := h)"
  and status_signal [simp]: "status (signal s h p) = status p"
  by (simp_all add: signal_def)

lemma trace_signal_each: "trace (signal_each ss h p) = trace p @ map (\<lambda>s. Call_signal s h) ss"
  by (induction ss arbitrary: p) simp_all

lemma disposition_signal_each:
  "disposition (signal_each ss h p) s = (if s \<in> set ss then h else disposition p s)"
  by (induction ss arbitrary: p) simp_all

lemma status_signal_each: "status (signal_each ss h p) = status p"
  by (induction ss arbitrary: p) simp_all

lemma trace_fmt_print [simp]: "trace (fmt_print s p) = trace p @ [Call_print Stdout s]"
  and table_at_fmt_print [simp]: "table_at (fmt_print s p) = table_at p @ [disposition p]"
  and disposition_fmt_print [simp]: "disposition (fmt_print s p) = disposition p"
  and status_fmt_print [simp]: "status (fmt_print s p) = status p"
  by (simp_all add: fmt_print_def)

lemma trace_abort [simp]: "trace (abort p) = trace p @ [Call_abort]"
  and table_at_abort [simp]: "table_at (abort p) = table_at p @ [disposition p]"
  and disposition_abort [simp]: "disposition (abort p) = disposition p"
  and status_abort [simp]: "status (abort p) = Aborted"
  by (simp_all add: abort_def)

lemma trace_raise_fault [simp]: "trace (raise_fault f p) = trace p @ [Fault_raised SIGSEGV]"
  and table_at_raise_fault [simp]: "table_at (raise_fault f p) = table_at p @ [disposition p]"
  and disposition_raise_fault [simp]: "disposition (raise_fault f p) = disposition p"
  and status_raise_fault [simp]:
    "status (raise_fault f p) = Signalled SIGSEGV (deliver (disposition p) SIGSEGV)"
  by (simp_all add: raise_fault_def fault_signal_def)

lemma trace_AfterCrashLogCleanup [simp]:
    "trace (AfterCrashLogCleanup p) = trace p @ [Call_AfterCrashLogCleanup]"
  and table_at_AfterCrashLogCleanup [simp]:
    "table_at (AfterCrashLogCleanup p) = table_at p @ [disposition p]"
  and disposition_AfterCrashLogCleanup [simp]:
    "disposition (AfterCrashLogCleanup p) = disposition p"
  and status_AfterCrashLogCleanup [simp]: "status (AfterCrashLogCleanup p) = status p"
  by (simp_all add: AfterCrashLogCleanup_def)

lemma events_since_trace: "trace q = trace p @ evs \<Longrightarrow> events_since p q = evs"
  by (simp add: events_since_def)

lemma tables_since_table_at: "table_at q = table_at p @ ts \<Longrightarrow> tables_since p q = ts"
  by (simp add: tables_since_def)

subsection \<open>The dump writer\<close>


lemma trace_write_report_and_dump:
  "trace (write_report_and_dump e log p) =
     trace p @ [Call_WriteCrashLog (signum log)] @ dump_events e @ [Call_WriteCrashDump (dump_status e)]"
  by (simp add: write_report_and_dump_def WriteCrashDump_def WriteMinidump_def
      MinidumpCallback_def dump_events_def dump_status_def)

lemma table_at_write_report_and_dump:
  "table_at (write_report_and_dump e log p) =
     table_at p @ disposition p # map (\<lambda>ev. disposition p) (dump_events e) @ [disposition p]"
  by (simp add: write_report_and_dump_def WriteCrashDump_def WriteMinidump_def
      MinidumpCallback_def dump_events_def)

lemma write_report_and_dump_other:
  "disposition (write_report_and_dump e log p) = disposition p"
  "status (write_report_and_dump e log p) = status p"
  by (simp_all add: write_report_and_dump_def WriteCrashDump_def WriteMinidump_def
      MinidumpCallback_def)

subsection \<open>Decimal numbers and lines\<close>

lemma fmt_int_examples:
  "fmt_int 11 = ''11''" "fmt_int 0 = ''0''" "fmt_int (- 7) = ''-7''"
  "fmt_int 2147483647 = ''2147483647''"
  "fmt_int_02 0 = ''00''" "fmt_int_02 9 = ''09''" "fmt_int_02 10 = ''10''" "fmt_int_02 63 = ''63''"
  by (simp_all add: fmt_int_def fmt_int_02_def decimal.simps digit_def)

lemma digit_cases:
  assumes "(d::nat) < 10"
  shows "d \<in> {0, 1, 2, 3, 4, 5, 6, 7, 8, 9}"
  using assms by auto

lemma digit_no_newline: "d < 10 \<Longrightarrow> digit d \<noteq> CHR ''\<newline>''"
  using digit_cases [of d] by (auto simp: digit_def)

lemma digit_no_minus: "d < 10 \<Longrightarrow> digit d \<noteq> CHR ''-''"
  using digit_cases [of d] by (auto simp: digit_def)

lemma digit_value_digit: "d < 10 \<Longrightarrow> digit_value (digit d) = d"
  using digit_cases [of d] by (auto simp: digit_def digit_value_def)

lemma decimal_no_newline: "CHR ''\<newline>'' \<notin> set (decimal n)"
proof (induction n rule: decimal.induct)
  case (1 n)
  show ?case
  proof (cases "n < 10")
    case True
    then show ?thesis
      using digit_no_newline [of n] by (simp add: decimal.simps [of n])
  next
    case False
    then show ?thesis
      using 1 digit_no_newline [of "n mod 10"] by (simp add: decimal.simps [of n])
  qed
qed

lemma decimal_no_minus: "CHR ''-'' \<notin> set (decimal n)"
proof (induction n rule: decimal.induct)
  case (1 n)
  show ?case
  proof (cases "n < 10")
    case True
    then show ?thesis
      using digit_no_minus [of n] by (simp add: decimal.simps [of n])
  next
    case False
    then show ?thesis
      using 1 digit_no_minus [of "n mod 10"] by (simp add: decimal.simps [of n])
  qed
qed

lemma decimal_not_empty: "decimal n \<noteq> []"
  by (subst decimal.simps) simp

text \<open>What \<open>decimal\<close> prints reads back as the number it was given.\<close>

lemma read_nat_snoc: "read_nat (ds @ [c]) = 10 * read_nat ds + digit_value c"
  by (simp add: read_nat_def)

lemma read_nat_decimal: "read_nat (decimal n) = n"
proof (induction n rule: decimal.induct)
  case (1 n)
  show ?case
  proof (cases "n < 10")
    case True
    then show ?thesis
      by (simp add: decimal.simps [of n] read_nat_def digit_value_digit)
  next
    case False
    then have "read_nat (decimal n) = 10 * read_nat (decimal (n div 10)) + digit_value (digit (n mod 10))"
      by (simp add: decimal.simps [of n] read_nat_snoc)
    also have "\<dots> = 10 * (n div 10) + n mod 10"
      using 1 False by (simp add: digit_value_digit)
    finally show ?thesis
      by simp
  qed
qed

lemma read_int_fmt_int: "read_int (fmt_int i) = i"
proof (cases "i < 0")
  case True
  then show ?thesis
    by (simp add: read_int_def fmt_int_def read_nat_decimal)
next
  case False
  have "hd (decimal (nat i)) \<in> set (decimal (nat i))"
    by (simp add: decimal_not_empty)
  then have "hd (decimal (nat i)) \<noteq> CHR ''-''"
    using decimal_no_minus [of "nat i"] by auto
  with False show ?thesis
    by (simp add: read_int_def fmt_int_def read_nat_decimal)
qed

text \<open>The index of a frame: at least two characters that read back as the index.\<close>

lemma read_nat_fmt_int_02: "read_nat (fmt_int_02 (int i)) = i"
proof (cases "i < 10")
  case True
  have "read_nat (CHR ''0'' # decimal i) = read_nat (decimal i)"
    using True by (simp add: decimal.simps [of i] read_nat_def digit_value_def)
  with True show ?thesis
    by (simp add: fmt_int_02_def read_nat_decimal)
next
  case False
  then show ?thesis
    by (simp add: fmt_int_02_def read_nat_decimal)
qed

lemma length_fmt_int_02: "2 \<le> length (fmt_int_02 (int i))"
proof (cases "i < 10")
  case True
  then show ?thesis
    by (simp add: fmt_int_02_def decimal.simps [of i])
next
  case False
  then have "decimal (i div 10) \<noteq> []"
    by (simp add: decimal_not_empty)
  then have "1 \<le> length (decimal (i div 10))"
    by (cases "decimal (i div 10)") simp_all
  with False show ?thesis
    by (simp add: fmt_int_02_def decimal.simps [of i])
qed

lemma fmt_int_no_newline: "CHR ''\<newline>'' \<notin> set (fmt_int i)"
  by (simp add: fmt_int_def decimal_no_newline)

lemma fmt_int_02_no_newline: "CHR ''\<newline>'' \<notin> set (fmt_int_02 i)"
  by (simp add: fmt_int_02_def decimal_no_newline)

lemma split_lines_append:
  "CHR ''\<newline>'' \<notin> set xs \<Longrightarrow> split_lines cur (xs @ ys) = split_lines (cur @ xs) ys"
  by (induction xs arbitrary: cur) auto

lemma split_lines_concat:
  "(\<And>l. l \<in> set ls \<Longrightarrow> CHR ''\<newline>'' \<notin> set l) \<Longrightarrow>
   split_lines [] (concat (map (\<lambda>l. l @ ''\<newline>'') ls) @ rest) = ls @ split_lines [] rest"
proof (induction ls)
  case Nil
  then show ?case by simp
next
  case (Cons l ls)
  have "CHR ''\<newline>'' \<notin> set l"
    using Cons.prems by simp
  then have "split_lines [] (l @ CHR ''\<newline>'' # concat (map (\<lambda>l. l @ ''\<newline>'') ls) @ rest)
      = l # split_lines [] (concat (map (\<lambda>l. l @ ''\<newline>'') ls) @ rest)"
    by (simp add: split_lines_append)
  then show ?case
    using Cons by simp
qed

text \<open>A text that ends in a newline has as many lines as it has newlines.\<close>

lemma length_split_lines:
  "s \<noteq> [] \<Longrightarrow> last s = CHR ''\<newline>'' \<Longrightarrow>
   length (split_lines cur s) = count_list s (CHR ''\<newline>'')"
proof (induction s arbitrary: cur)
  case Nil
  then show ?case by simp
next
  case (Cons c cs)
  show ?case
  proof (cases "cs = []")
    case True
    then show ?thesis
      using Cons.prems by simp
  next
    case False
    then have "last cs = CHR ''\<newline>''"
      using Cons.prems by simp
    then show ?thesis
      using Cons.IH False by simp
  qed
qed

subsection \<open>The frame loop\<close>

text \<open>With an array of at least \<open>trace_size\<close> strings the loop writes one line per index.\<close>

lemma LogStacktrace_loop_Some:
  "trace_size \<le> length ms \<Longrightarrow>
   LogStacktrace_loop (Some ms) trace_size i out =
     Inr (out @ concat (map (\<lambda>k. '' ['' @ fmt_int_02 (int k) @ ''] '' @ ms ! k @ ''\<newline>'')
       [i..<trace_size]))"
proof (induction "Some ms" trace_size i out rule: LogStacktrace_loop.induct)
  case (1 trace_size i out)
  show ?case
  proof (cases "i < trace_size")
    case True
    then have "i < length ms"
      using "1.prems" by simp
    then have at: "messages_at (Some ms) i = Inr (ms ! i)"
      by (simp add: messages_at_def)
    have "LogStacktrace_loop (Some ms) trace_size i out =
        LogStacktrace_loop (Some ms) trace_size (Suc i)
          (out @ '' ['' @ fmt_int_02 (int i) @ ''] '' @ ms ! i @ ''\<newline>'')"
      using True at by (subst LogStacktrace_loop.simps) simp
    also have "\<dots> = Inr ((out @ '' ['' @ fmt_int_02 (int i) @ ''] '' @ ms ! i @ ''\<newline>'') @
        concat (map (\<lambda>k. '' ['' @ fmt_int_02 (int k) @ ''] '' @ ms ! k @ ''\<newline>'')
          [Suc i..<trace_size]))"
      using "1.hyps" [OF True at] "1.prems" by simp
    finally show ?thesis
      using True by (simp add: upt_conv_Cons)
  next
    case False
    then show ?thesis
      by (subst LogStacktrace_loop.simps) simp
  qed
qed

text \<open>With \<^verbatim>\<open>NULL\<close> for the array the first pass through the loop body faults.\<close>

lemma LogStacktrace_loop_None:
  "LogStacktrace_loop None trace_size i out =
     (if i < trace_size then Inl Null_dereference else Inr out)"
  by (subst LogStacktrace_loop.simps) (simp add: messages_at_def)

lemma length_backtrace: "length (backtrace e sz) = min sz (length (call_stack e))"
  by (simp add: backtrace_def)

lemma LogStacktrace_glibc:
  assumes "GLIBC e" and "\<not> symbols_malloc_fails e"
  shows "LogStacktrace e out =
     Inr (out @ ''Stacktrace:\<newline>''
          @ concat (map (\<lambda>i. frame_line e i @ ''\<newline>'') [0..<min 64 (length (call_stack e))])
          @ ''\<newline>'')"
proof -
  let ?n = "min 64 (length (call_stack e))"
  let ?tr = "backtrace e 64"
  let ?ms = "map (symbol e) ?tr"
  have ms: "backtrace_symbols e ?tr (length ?tr) = Some ?ms"
    using assms(2) by (simp add: backtrace_symbols_def)
  have loop: "LogStacktrace_loop (Some ?ms) (length ?tr) 0 (out @ ''Stacktrace:\<newline>'') =
      Inr ((out @ ''Stacktrace:\<newline>'')
        @ concat (map (\<lambda>k. '' ['' @ fmt_int_02 (int k) @ ''] '' @ ?ms ! k @ ''\<newline>'')
            [0..<length ?tr]))"
    by (rule LogStacktrace_loop_Some) simp
  have len: "length ?tr = ?n"
    by (rule length_backtrace)
  have frames: "map (\<lambda>k. '' ['' @ fmt_int_02 (int k) @ ''] '' @ ?ms ! k @ ''\<newline>'') [0..<length ?tr]
      = map (\<lambda>i. frame_line e i @ ''\<newline>'') [0..<?n]"
    unfolding len by (rule map_cong) (auto simp: frame_line_def backtrace_def)
  have "LogStacktrace e out =
      Inr (((out @ ''Stacktrace:\<newline>'')
        @ concat (map (\<lambda>i. frame_line e i @ ''\<newline>'') [0..<?n])) @ ''\<newline>'')"
    unfolding LogStacktrace_def Let_def ms loop frames using assms(1) by simp
  then show ?thesis
    by simp
qed

lemma LogStacktrace_null:
  assumes "GLIBC e" and "symbols_malloc_fails e"
  shows "LogStacktrace e out =
     (if call_stack e = [] then Inr (out @ ''Stacktrace:\<newline>'' @ ''\<newline>'')
      else Inl Null_dereference)"
  using assms
  by (simp add: LogStacktrace_def Let_def backtrace_symbols_def LogStacktrace_loop_None
      backtrace_def)

lemma LogStacktrace_no_glibc:
  "\<not> GLIBC e \<Longrightarrow>
   LogStacktrace e out = Inr (out @ ''Stacktrace:\<newline>'' @ '' Not supported.\<newline>'' @ ''\<newline>'')"
  by (simp add: LogStacktrace_def)

text \<open>
  The producer faults in exactly one situation: glibc, a stack with at least one frame,
  and \<^verbatim>\<open>backtrace_symbols\<close> returning \<^verbatim>\<open>NULL\<close>. It never reads past the end of
  the array.
\<close>

lemma LogStacktrace_faults_iff:
  "(\<exists>f. LogStacktrace e out = Inl f) =
     (GLIBC e \<and> symbols_malloc_fails e \<and> call_stack e \<noteq> [])"
proof (cases "GLIBC e")
  case False
  then show ?thesis
    by (simp add: LogStacktrace_no_glibc)
next
  case True
  show ?thesis
  proof (cases "symbols_malloc_fails e")
    case False
    with True show ?thesis
      by (simp add: LogStacktrace_glibc)
  next
    case fails: True
    with True show ?thesis
      by (simp add: LogStacktrace_null)
  qed
qed

lemma LogStacktrace_fault:
  "stack_trace_faults e \<Longrightarrow> LogStacktrace e out = Inl Null_dereference"
  by (simp add: stack_trace_faults_def LogStacktrace_null)

lemma LogStacktrace_returns:
  "\<not> stack_trace_faults e \<Longrightarrow> \<exists>t. LogStacktrace e out = Inr t"
  using LogStacktrace_faults_iff [of e out]
  by (cases "LogStacktrace e out") (auto simp: stack_trace_faults_def)

text \<open>
  What the producer writes when \<^verbatim>\<open>backtrace_symbols\<close> returns its array, and what it
  writes without glibc, line by line.
\<close>

lemma LogStacktrace_lines:
  assumes "\<And>a. CHR ''\<newline>'' \<notin> set (symbol e a)"
  shows "lines_of (''Stacktrace:\<newline>''
             @ concat (map (\<lambda>i. frame_line e i @ ''\<newline>'') [0..<n])
             @ ''\<newline>'')
           = ''Stacktrace:'' # map (frame_line e) [0..<n] @ [[]]"
proof -
  have "split_lines []
      (concat (map (\<lambda>l. l @ ''\<newline>'') (map (frame_line e) [0..<n])) @ ''\<newline>'')
      = map (frame_line e) [0..<n] @ split_lines [] ''\<newline>''"
    by (rule split_lines_concat)
      (use assms in \<open>auto simp: frame_line_def fmt_int_02_no_newline\<close>)
  then show ?thesis
    by (simp add: lines_of_def comp_def)
qed

lemma LogStacktrace_marker_lines:
  "lines_of (''Stacktrace:\<newline>'' @ '' Not supported.\<newline>'' @ ''\<newline>'')
     = [''Stacktrace:'', '' Not supported.'', []]"
  by (simp add: lines_of_def)

subsection \<open>The report and the handler\<close>

lemma FillCrashLog_fault:
  "stack_trace_faults e \<Longrightarrow> FillCrashLog e log = Inl Null_dereference"
  by (simp add: FillCrashLog_def Let_def LogStacktrace_fault)

lemma FillCrashLog_returns:
  "\<not> stack_trace_faults e \<Longrightarrow> \<exists>t. FillCrashLog e log = Inr t"
  using LogStacktrace_returns [of e "LogError e log (LogOSVersion e []) (crash_message e)"]
  by (auto simp: FillCrashLog_def Let_def)

lemma MakeCrashLog_cases:
  "MakeCrashLog e log p =
     (if stack_trace_faults e then Inl Null_dereference
      else Inr (write_report_and_dump e log p))"
proof (cases "stack_trace_faults e")
  case True
  then show ?thesis
    by (simp add: MakeCrashLog_def FillCrashLog_fault)
next
  case False
  then obtain t where "FillCrashLog e log = Inr t"
    using FillCrashLog_returns by blast
  with False show ?thesis
    by (simp add: MakeCrashLog_def)
qed

text \<open>The whole trace of the handler, branch by branch.\<close>

lemma HandleCrash_trace:
  "trace (HandleCrash e sig p) = trace p @ resets @
     (if TestEmergency e then
        [Call_TestEmergency,
         Call_print Stdout ''A serious fault condition occurred in the game. The game will shut down.\<newline>'',
         Call_print Stdout ''As you loaded an emergency savegame no crash information will be generated.\<newline>'',
         Call_abort]
      else if SaveloadCrashWithMissingNewGRFs e then
        [Call_TestEmergency, Call_SaveloadCrashWithMissingNewGRFs,
         Call_print Stdout ''A serious fault condition occurred in the game. The game will shut down.\<newline>'',
         Call_print Stdout ''As you loaded an savegame for which you do not have the required NewGRFs\<newline>'',
         Call_print Stdout ''no crash information will be generated.\<newline>'',
         Call_abort]
      else if stack_trace_faults e then
        [Call_TestEmergency, Call_SaveloadCrashWithMissingNewGRFs, Fault_raised SIGSEGV]
      else
        [Call_TestEmergency, Call_SaveloadCrashWithMissingNewGRFs, Call_WriteCrashLog sig]
          @ dump_events e
          @ [Call_WriteCrashDump (dump_status e), Call_AfterCrashLogCleanup, Call_abort])"
  by (simp add: HandleCrash_def Let_def trace_signal_each signals_to_handle_def resets_def
      MakeCrashLog_cases trace_write_report_and_dump)

lemmas HandleCrash_events = events_since_trace [OF HandleCrash_trace]

lemma HandleCrash_disposition:
  "disposition (HandleCrash e sig p) s =
     (if s \<in> set signals_to_handle then SIG_DFL else disposition p s)"
  by (simp add: HandleCrash_def Let_def MakeCrashLog_cases write_report_and_dump_other
      disposition_signal_each)

text \<open>
  How a run of the handler ends: by \<^verbatim>\<open>abort\<close>, or, when the stack-trace producer
  faults on the reporting path, by the default action of SIGSEGV.
\<close>

lemma HandleCrash_status:
  "status (HandleCrash e sig p) =
     (if TestEmergency e \<or> SaveloadCrashWithMissingNewGRFs e \<or> \<not> stack_trace_faults e
      then Aborted else Signalled SIGSEGV Default_action)"
  by (simp add: HandleCrash_def Let_def MakeCrashLog_cases write_report_and_dump_other
      disposition_signal_each signals_to_handle_def deliver_def)

lemma length_resets: "length resets = 5"
  by (simp add: resets_def)

text \<open>
  The tables in force during a run: after the fifth call of \<^verbatim>\<open>signal\<close> and after
  every later event, each of the five signals has the default disposition.
\<close>

lemma HandleCrash_tables_length:
  "length (tables_since p (HandleCrash e sig p)) = length (events_since p (HandleCrash e sig p))"
  by (simp add: tables_since_def events_since_def HandleCrash_def Let_def signals_to_handle_def
      MakeCrashLog_cases table_at_write_report_and_dump trace_write_report_and_dump)

lemma reset_table:
  "s \<in> set signals_to_handle \<Longrightarrow>
   (d(SIGSEGV := SIG_DFL, SIGABRT := SIG_DFL, SIGFPE := SIG_DFL, SIGBUS := SIG_DFL,
      SIGILL := SIG_DFL)) s = SIG_DFL"
  by (auto simp: signals_to_handle_def)

lemma HandleCrash_tables_default:
  assumes "s \<in> set signals_to_handle"
  shows "list_all (\<lambda>t. t s = SIG_DFL) (drop 4 (tables_since p (HandleCrash e sig p)))"
  using reset_table [OF assms, of "disposition p"]
  by (simp add: tables_since_def HandleCrash_def Let_def signals_to_handle_def
      MakeCrashLog_cases table_at_write_report_and_dump write_report_and_dump_other
      dump_events_def del: fun_upd_apply)

lemma HandleCrash_table_at:
  assumes "s \<in> set signals_to_handle" and "4 \<le> k"
    and "k < length (events_since p (HandleCrash e sig p))"
  shows "(tables_since p (HandleCrash e sig p) ! k) s = SIG_DFL"
proof -
  let ?ts = "tables_since p (HandleCrash e sig p)"
  have k: "k < length ?ts"
    using assms(3) by (simp add: HandleCrash_tables_length)
  then have "k - 4 < length (drop 4 ?ts)"
    using assms(2) by simp
  moreover have "\<forall>n < length (drop 4 ?ts). (drop 4 ?ts ! n) s = SIG_DFL"
    using HandleCrash_tables_default [OF assms(1), of p e sig] by (simp add: list_all_length)
  ultimately have "(drop 4 ?ts ! (k - 4)) s = SIG_DFL"
    by blast
  then show ?thesis
    using assms(2) k by simp
qed

section \<open>The claims\<close>

text \<open>
  Claim C1. However the handler is entered (any signal number, any process state, any
  environment), the first five things it does are the calls \<^verbatim>\<open>signal(s, SIG_DFL)\<close> for
  SIGSEGV, SIGABRT, SIGFPE, SIGBUS and SIGILL; the evaluation of the first escape
  condition is its sixth action, and every print and every step of report generation
  comes later still. The disposition table itself is reset: in the process the handler
  leaves, and in the table that is in force right after the fifth call and after every
  later event of the run, each of the five signals has the default disposition. A signal
  of the set that is raised then gets the default action, and no run of the handler ends
  with the handler entered a second time.
\<close>

theorem HandleCrash_resets_signals_first:
  "take 5 (events_since p (HandleCrash e sig p)) =
     [Call_signal SIGSEGV SIG_DFL, Call_signal SIGABRT SIG_DFL, Call_signal SIGFPE SIG_DFL,
      Call_signal SIGBUS SIG_DFL, Call_signal SIGILL SIG_DFL]
   \<and> events_since p (HandleCrash e sig p) ! 5 = Call_TestEmergency
   \<and> length (tables_since p (HandleCrash e sig p)) = length (events_since p (HandleCrash e sig p))
   \<and> (s \<in> set signals_to_handle \<longrightarrow>
        disposition (HandleCrash e sig p) s = SIG_DFL
        \<and> (4 \<le> k \<and> k < length (events_since p (HandleCrash e sig p)) \<longrightarrow>
             (tables_since p (HandleCrash e sig p) ! k) s = SIG_DFL
             \<and> deliver (tables_since p (HandleCrash e sig p) ! k) s = Default_action))
   \<and> status (HandleCrash e sig p) \<noteq> Signalled s' Enters_HandleCrash"
proof -
  have "take 5 (events_since p (HandleCrash e sig p)) = resets"
    by (simp add: HandleCrash_events length_resets)
  moreover have "events_since p (HandleCrash e sig p) ! 5 = Call_TestEmergency"
    by (simp add: HandleCrash_events resets_def)
  moreover have "status (HandleCrash e sig p) \<noteq> Signalled s' Enters_HandleCrash"
    by (simp add: HandleCrash_status)
  ultimately show ?thesis
    by (simp add: resets_def HandleCrash_tables_length HandleCrash_disposition
        HandleCrash_table_at deliver_def)
qed

text \<open>
  In the armed process a segmentation violation enters the handler. During a run of the
  handler, SIGILL still has the handler after the fourth call of \<^verbatim>\<open>signal\<close> and the
  default disposition after the fifth; the table the handler leaves has the default
  disposition for SIGSEGV; and when the stack-trace producer faults inside the handler,
  the SIGSEGV it raises gets the default action.
\<close>

theorem HandleCrash_resets_signals_first_witness:
  "deliver (disposition armed) SIGSEGV = Enters_HandleCrash
   \<and> deliver (tables_since armed (HandleCrash env_linux SIGSEGV armed) ! 3) SIGILL
       = Enters_HandleCrash
   \<and> deliver (tables_since armed (HandleCrash env_linux SIGSEGV armed) ! 4) SIGILL
       = Default_action
   \<and> deliver (tables_since armed (HandleCrash env_linux SIGSEGV armed) ! 5) SIGSEGV
       = Default_action
   \<and> disposition (HandleCrash env_linux SIGSEGV armed) SIGSEGV = SIG_DFL
   \<and> status (HandleCrash (env_linux\<lparr>symbols_malloc_fails := True\<rparr>) SIGSEGV armed)
       = Signalled SIGSEGV Default_action"
  using HandleCrash_resets_signals_first [of armed env_linux SIGSEGV SIGILL 4]
    HandleCrash_resets_signals_first [of armed env_linux SIGSEGV SIGSEGV 5]
  by (simp add: signals_to_handle_def armed_def InitialiseCrashLog_def process_start_def
      HandleCrash_events HandleCrash_status stack_trace_faults_def env_linux_def deliver_def
      signal_numbers resets_def dump_events_def tables_since_def HandleCrash_def Let_def
      MakeCrashLog_cases table_at_write_report_and_dump)

text \<open>
  Claim C2 puts the escape message on the standard error stream. It is not there: in
  the run below the emergency condition is true, both lines of the message go to the
  standard output, and nothing is printed to the standard error stream.
\<close>

theorem escape_message_is_on_stdout:
  "printed Stderr (events_since armed
      (HandleCrash (env_linux\<lparr>TestEmergency := True\<rparr>) SIGSEGV armed)) = []
   \<and> printed Stdout (events_since armed
      (HandleCrash (env_linux\<lparr>TestEmergency := True\<rparr>) SIGSEGV armed)) =
       [''A serious fault condition occurred in the game. The game will shut down.\<newline>'',
        ''As you loaded an emergency savegame no crash information will be generated.\<newline>'']"
  by (simp add: HandleCrash_events env_linux_def resets_def)

text \<open>
  Claim C2, amended: if the emergency-savegame condition or the missing-NewGRFs
  condition is true, the handler resets the five dispositions, evaluates the condition(s),
  prints the two (emergency) or three (missing NewGRFs) lines of its message to the
  standard output, and calls \<^verbatim>\<open>abort\<close> at once. It writes no report file and no dump,
  does not call the cleanup hook, and prints nothing to the standard error stream.
\<close>

theorem HandleCrash_escape:
  assumes "TestEmergency e \<or> SaveloadCrashWithMissingNewGRFs e"
  shows "events_since p (HandleCrash e sig p) =
       [Call_signal SIGSEGV SIG_DFL, Call_signal SIGABRT SIG_DFL, Call_signal SIGFPE SIG_DFL,
        Call_signal SIGBUS SIG_DFL, Call_signal SIGILL SIG_DFL] @
       (if TestEmergency e then
          [Call_TestEmergency,
           Call_print Stdout ''A serious fault condition occurred in the game. The game will shut down.\<newline>'',
           Call_print Stdout ''As you loaded an emergency savegame no crash information will be generated.\<newline>'',
           Call_abort]
        else
          [Call_TestEmergency, Call_SaveloadCrashWithMissingNewGRFs,
           Call_print Stdout ''A serious fault condition occurred in the game. The game will shut down.\<newline>'',
           Call_print Stdout ''As you loaded an savegame for which you do not have the required NewGRFs\<newline>'',
           Call_print Stdout ''no crash information will be generated.\<newline>'',
           Call_abort])
     \<and> printed Stderr (events_since p (HandleCrash e sig p)) = []
     \<and> Call_WriteCrashLog s \<notin> set (events_since p (HandleCrash e sig p))
     \<and> Call_WriteMinidump \<notin> set (events_since p (HandleCrash e sig p))
     \<and> Call_WriteCrashDump d \<notin> set (events_since p (HandleCrash e sig p))
     \<and> Call_AfterCrashLogCleanup \<notin> set (events_since p (HandleCrash e sig p))
     \<and> last (events_since p (HandleCrash e sig p)) = Call_abort
     \<and> status (HandleCrash e sig p) = Aborted"
  using assms by (auto simp add: HandleCrash_events HandleCrash_status resets_def)

theorem HandleCrash_escape_witness:
  "events_since armed
     (HandleCrash (env_linux\<lparr>SaveloadCrashWithMissingNewGRFs := True\<rparr>) SIGBUS armed) =
       [Call_signal SIGSEGV SIG_DFL, Call_signal SIGABRT SIG_DFL, Call_signal SIGFPE SIG_DFL,
        Call_signal SIGBUS SIG_DFL, Call_signal SIGILL SIG_DFL,
        Call_TestEmergency, Call_SaveloadCrashWithMissingNewGRFs,
        Call_print Stdout ''A serious fault condition occurred in the game. The game will shut down.\<newline>'',
        Call_print Stdout ''As you loaded an savegame for which you do not have the required NewGRFs\<newline>'',
        Call_print Stdout ''no crash information will be generated.\<newline>'',
        Call_abort]
   \<and> status (HandleCrash (env_linux\<lparr>SaveloadCrashWithMissingNewGRFs := True\<rparr>) SIGBUS armed)
       = Aborted"
  using HandleCrash_escape [of "env_linux\<lparr>SaveloadCrashWithMissingNewGRFs := True\<rparr>" armed SIGBUS]
  by (simp add: env_linux_def)

text \<open>
  Claim C3. Not every run of the handler ends in \<^verbatim>\<open>abort\<close>. On the reporting path
  the report assembler runs the stack-trace producer; with glibc, two frames on the call
  stack and \<^verbatim>\<open>NULL\<close> from \<^verbatim>\<open>backtrace_symbols\<close> the producer reads through the null
  pointer, and the run below ends there: the process is killed by the default action of
  SIGSEGV, the cleanup hook is not called and \<^verbatim>\<open>abort\<close> is never reached.
\<close>

theorem HandleCrash_killed_before_abort:
  "events_since armed
     (HandleCrash (env_linux\<lparr>symbols_malloc_fails := True\<rparr>) SIGSEGV armed) =
       [Call_signal SIGSEGV SIG_DFL, Call_signal SIGABRT SIG_DFL, Call_signal SIGFPE SIG_DFL,
        Call_signal SIGBUS SIG_DFL, Call_signal SIGILL SIG_DFL,
        Call_TestEmergency, Call_SaveloadCrashWithMissingNewGRFs, Fault_raised SIGSEGV]
   \<and> status (HandleCrash (env_linux\<lparr>symbols_malloc_fails := True\<rparr>) SIGSEGV armed)
       = Signalled SIGSEGV Default_action"
  by (simp add: HandleCrash_events HandleCrash_status stack_trace_faults_def env_linux_def
      resets_def)

text \<open>
  Claim C4. The table \<^verbatim>\<open>_signals_to_handle\<close> holds exactly SIGSEGV, SIGABRT, SIGFPE,
  SIGBUS and SIGILL, each once. \<^verbatim>\<open>CrashLog::InitialiseCrashLog\<close> makes five calls of
  \<^verbatim>\<open>signal\<close>, one per entry, with \<^verbatim>\<open>HandleCrash\<close> as the handler; afterwards
  a signal has \<^verbatim>\<open>HandleCrash\<close> as its disposition if it is one of the five, and the
  disposition it had before otherwise.
\<close>

theorem InitialiseCrashLog_installs_exactly_the_signal_set:
  "set signals_to_handle = {SIGSEGV, SIGABRT, SIGFPE, SIGBUS, SIGILL}
   \<and> distinct signals_to_handle
   \<and> events_since p (InitialiseCrashLog p) =
       [Call_signal SIGSEGV HandleCrash_ptr, Call_signal SIGABRT HandleCrash_ptr,
        Call_signal SIGFPE HandleCrash_ptr, Call_signal SIGBUS HandleCrash_ptr,
        Call_signal SIGILL HandleCrash_ptr]
   \<and> disposition (InitialiseCrashLog p) s =
       (if s \<in> {SIGSEGV, SIGABRT, SIGFPE, SIGBUS, SIGILL} then HandleCrash_ptr
        else disposition p s)
   \<and> status (InitialiseCrashLog p) = status p"
  by (simp add: InitialiseCrashLog_def signals_to_handle_def events_since_def trace_signal_each
      disposition_signal_each status_signal_each signal_numbers)

text \<open>
  In the armed process SIGBUS (7) enters the handler; signal 2 (SIGINT on Linux) and
  signal 15 (SIGTERM) keep the default disposition.
\<close>

theorem InitialiseCrashLog_installs_exactly_the_signal_set_witness:
  "disposition armed SIGBUS = HandleCrash_ptr
   \<and> disposition armed 2 = SIG_DFL
   \<and> disposition armed 15 = SIG_DFL"
  using InitialiseCrashLog_installs_exactly_the_signal_set [of process_start SIGBUS]
    InitialiseCrashLog_installs_exactly_the_signal_set [of process_start 2]
    InitialiseCrashLog_installs_exactly_the_signal_set [of process_start 15]
  by (simp add: armed_def process_start_def signal_numbers)

text \<open>
  Claim C5. \<^verbatim>\<open>LogOSVersion\<close> only appends to the text written so far, and always
  returns. If \<^verbatim>\<open>uname\<close> fails (a negative return value) it appends
  \<open>Could not get OS version: \<close>, the text \<^verbatim>\<open>strerror(errno)\<close> and a newline: one line,
  if the reason itself has no newline. If \<^verbatim>\<open>uname\<close> succeeds it appends a header line
  and a line each for the system name, the release, the version and the machine.
\<close>

theorem LogOSVersion_text:
  "LogOSVersion e out =
     out @ (if uname_ret e < 0 then
              ''Could not get OS version: '' @ strerror e (errno e) @ ''\<newline>''
            else
              ''Operating system:\<newline>''
              @ '' Name:     '' @ sysname (uname_buf e) @ ''\<newline>''
              @ '' Release:  '' @ release (uname_buf e) @ ''\<newline>''
              @ '' Version:  '' @ version (uname_buf e) @ ''\<newline>''
              @ '' Machine:  '' @ machine (uname_buf e) @ ''\<newline>'')
   \<and> (uname_ret e < 0 \<and> CHR ''\<newline>'' \<notin> set (strerror e (errno e)) \<longrightarrow>
        lines_of (drop (length out) (LogOSVersion e out)) =
          [''Could not get OS version: '' @ strerror e (errno e)])"
  by (simp add: LogOSVersion_def lines_of_def split_lines_append)

theorem LogOSVersion_text_witness:
  "LogOSVersion (env_linux\<lparr>uname_ret := - 1, errno := 14\<rparr>) ''x'' =
     ''xCould not get OS version: Bad address\<newline>''
   \<and> lines_of (drop 1 (LogOSVersion (env_linux\<lparr>uname_ret := - 1, errno := 14\<rparr>) ''x'')) =
       [''Could not get OS version: Bad address'']
   \<and> LogOSVersion env_linux [] =
       ''Operating system:\<newline> Name:     Linux\<newline> Release:  6.1.0\<newline> Version:  #1 SMP\<newline> Machine:  x86_64\<newline>''"
  using LogOSVersion_text [of "env_linux\<lparr>uname_ret := - 1, errno := 14\<rparr>" "''x''"]
    LogOSVersion_text [of env_linux "[]"]
  by (simp add: env_linux_def linux_uts_def lines_of_def)

text \<open>
  Claim C6. The stack-trace producer does not render every captured frame. With glibc,
  \<^verbatim>\<open>backtrace\<close> captures the two frames of the call stack below; when
  \<^verbatim>\<open>backtrace_symbols\<close> returns its array the section is the header, the lines
  \<open> [00] ...\<close> and \<open> [01] ...\<close> and an empty line, but when it returns \<^verbatim>\<open>NULL\<close> the
  producer reads \<^verbatim>\<open>messages[0]\<close> through the null pointer: no frame line and no marker
  is written, and the producer does not return.
\<close>

theorem LogStacktrace_captured_frames_not_rendered:
  "length (backtrace (env_linux\<lparr>symbols_malloc_fails := True\<rparr>) 64) = 2
   \<and> LogStacktrace (env_linux\<lparr>symbols_malloc_fails := True\<rparr>) ''Crash reason:\<newline>''
       = Inl Null_dereference
   \<and> LogStacktrace env_linux [] =
       Inr ''Stacktrace:\<newline> [00] ./openttd(+0x1000) [0x401000]\<newline> [01] ./openttd(+0x1200) [0x401200]\<newline>\<newline>''"
  by (simp add: LogStacktrace_null LogStacktrace_glibc length_backtrace env_linux_def
      frame_line_def fmt_int_02_def decimal.simps digit_def upt_conv_Cons)

text \<open>
  Claim C7 gives the block three lines for every message string. A message that holds a
  newline makes it longer: with the message \<open>a\<close>, newline, \<open>b\<close> the block has the lines
  below, the message spread over two of them.
\<close>

theorem LogError_message_with_newline:
  "lines_of (LogError env_linux \<lparr>signum = SIGSEGV\<rparr> [] ''a\<newline>b'') =
     [''Crash reason:'', '' Signal:  Segmentation fault (11)'', '' Message: a'', ''b'', []]"
  by (simp add: LogError_def env_linux_def SIGSEGV_def fmt_int_def decimal.simps digit_def
      lines_of_def)

text \<open>
  Claim C7, amended: for every signal number and every message string, \<^verbatim>\<open>LogError\<close>
  appends \<open>Crash reason:\<close> and a newline; \<open> Signal:  \<close>, \<^verbatim>\<open>strsignal\<close>'s name of the
  signal, the signal number in decimal between parentheses, and a newline; \<open> Message: \<close>,
  the message and a newline; and one more newline. The number printed reads back as the
  signal number. The block has four lines plus one for every newline inside the name or
  inside the message: where neither holds a newline it is the header line, the signal
  line and the message line, followed by an empty line.
\<close>

theorem LogError_text:
  "LogError e this out message =
     out @ ''Crash reason:\<newline>''
         @ '' Signal:  '' @ strsignal e (signum this) @ '' ('' @ fmt_int (signum this) @ '')\<newline>''
         @ '' Message: '' @ message @ ''\<newline>''
         @ ''\<newline>''
   \<and> read_int (fmt_int (signum this)) = signum this
   \<and> length (lines_of (drop (length out) (LogError e this out message))) =
       4 + count_list (strsignal e (signum this)) (CHR ''\<newline>'')
         + count_list message (CHR ''\<newline>'')
   \<and> (CHR ''\<newline>'' \<notin> set (strsignal e (signum this)) \<longrightarrow>
        lines_of (drop (length out) (LogError e this out message)) =
          [''Crash reason:'',
           '' Signal:  '' @ strsignal e (signum this) @ '' ('' @ fmt_int (signum this) @ '')'']
          @ lines_of ('' Message: '' @ message @ ''\<newline>'' @ ''\<newline>''))
   \<and> (CHR ''\<newline>'' \<notin> set (strsignal e (signum this)) \<and> CHR ''\<newline>'' \<notin> set message \<longrightarrow>
        lines_of (drop (length out) (LogError e this out message)) =
          [''Crash reason:'',
           '' Signal:  '' @ strsignal e (signum this) @ '' ('' @ fmt_int (signum this) @ '')'',
           '' Message: '' @ message,
           []])"
proof -
  let ?name = "strsignal e (signum this)"
  let ?block = "''Crash reason:\<newline>''
         @ '' Signal:  '' @ ?name @ '' ('' @ fmt_int (signum this) @ '')\<newline>''
         @ '' Message: '' @ message @ ''\<newline>'' @ ''\<newline>''"
  have block: "drop (length out) (LogError e this out message) = ?block"
    by (simp add: LogError_def)
  have "length (split_lines [] ?block) = count_list ?block (CHR ''\<newline>'')"
    by (rule length_split_lines) simp_all
  also have "\<dots> = 4 + count_list ?name (CHR ''\<newline>'') + count_list message (CHR ''\<newline>'')"
    using fmt_int_no_newline [of "signum this"] by simp
  finally have count: "length (lines_of ?block) =
      4 + count_list ?name (CHR ''\<newline>'') + count_list message (CHR ''\<newline>'')"
    by (simp add: lines_of_def)
  have upto_message: "lines_of ?block =
      [''Crash reason:'', '' Signal:  '' @ ?name @ '' ('' @ fmt_int (signum this) @ '')'']
      @ lines_of ('' Message: '' @ message @ ''\<newline>'' @ ''\<newline>'')"
    if "CHR ''\<newline>'' \<notin> set ?name"
    using that by (simp add: lines_of_def split_lines_append fmt_int_no_newline)
  have message_line: "lines_of ('' Message: '' @ message @ ''\<newline>'' @ ''\<newline>'') =
      ['' Message: '' @ message, []]"
    if "CHR ''\<newline>'' \<notin> set message"
    using that by (simp add: lines_of_def split_lines_append)
  show ?thesis
    unfolding block using count upto_message message_line
    by (simp add: LogError_def read_int_fmt_int)
qed

text \<open>
  Signal 11 with a one-line message, and signal 7: the numbers in the block are 11 and 7.
\<close>

theorem LogError_text_witness:
  "LogError env_linux \<lparr>signum = SIGSEGV\<rparr> [] ''NewGRF load failure'' =
     ''Crash reason:\<newline> Signal:  Segmentation fault (11)\<newline> Message: NewGRF load failure\<newline>\<newline>''
   \<and> lines_of (LogError env_linux \<lparr>signum = SIGSEGV\<rparr> [] ''NewGRF load failure'') =
       [''Crash reason:'', '' Signal:  Segmentation fault (11)'',
        '' Message: NewGRF load failure'', []]
   \<and> lines_of (LogError (env_linux\<lparr>strsignal := (\<lambda>n. ''Bus error'')\<rparr>) \<lparr>signum = SIGBUS\<rparr> [] []) =
       [''Crash reason:'', '' Signal:  Bus error (7)'', '' Message: '', []]
   \<and> read_int ''11'' = 11"
  using LogError_text [of env_linux "\<lparr>signum = SIGSEGV\<rparr>" "[]" "''NewGRF load failure''"]
    LogError_text [of "env_linux\<lparr>strsignal := (\<lambda>n. ''Bus error'')\<rparr>" "\<lparr>signum = SIGBUS\<rparr>" "[]" "[]"]
  by (simp add: env_linux_def signal_numbers fmt_int_def decimal.simps digit_def lines_of_def)



text \<open>
  Claim C9. The emergency condition is evaluated first, right after the five resets, in
  every run; the missing-NewGRFs condition is evaluated next, and only if the emergency
  condition was false. When both conditions are true the run is the emergency run: the
  two lines of the emergency message are all that is printed, the missing-NewGRFs
  condition is never evaluated, and \<^verbatim>\<open>abort\<close> follows the message.
\<close>

theorem emergency_check_comes_first:
  "events_since p (HandleCrash e sig p) ! 5 = Call_TestEmergency
   \<and> (\<not> TestEmergency e \<longrightarrow>
        events_since p (HandleCrash e sig p) ! 6 = Call_SaveloadCrashWithMissingNewGRFs)
   \<and> (TestEmergency e \<and> SaveloadCrashWithMissingNewGRFs e \<longrightarrow>
        events_since p (HandleCrash e sig p) =
          [Call_signal SIGSEGV SIG_DFL, Call_signal SIGABRT SIG_DFL, Call_signal SIGFPE SIG_DFL,
           Call_signal SIGBUS SIG_DFL, Call_signal SIGILL SIG_DFL,
           Call_TestEmergency,
           Call_print Stdout ''A serious fault condition occurred in the game. The game will shut down.\<newline>'',
           Call_print Stdout ''As you loaded an emergency savegame no crash information will be generated.\<newline>'',
           Call_abort]
        \<and> Call_SaveloadCrashWithMissingNewGRFs \<notin> set (events_since p (HandleCrash e sig p))
        \<and> printed Stdout (events_since p (HandleCrash e sig p)) =
           [''A serious fault condition occurred in the game. The game will shut down.\<newline>'',
            ''As you loaded an emergency savegame no crash information will be generated.\<newline>''])"
  by (simp add: HandleCrash_events resets_def)

theorem emergency_check_comes_first_witness:
  "events_since armed
     (HandleCrash (env_linux\<lparr>TestEmergency := True, SaveloadCrashWithMissingNewGRFs := True\<rparr>)
        SIGFPE armed) =
          [Call_signal SIGSEGV SIG_DFL, Call_signal SIGABRT SIG_DFL, Call_signal SIGFPE SIG_DFL,
           Call_signal SIGBUS SIG_DFL, Call_signal SIGILL SIG_DFL,
           Call_TestEmergency,
           Call_print Stdout ''A serious fault condition occurred in the game. The game will shut down.\<newline>'',
           Call_print Stdout ''As you loaded an emergency savegame no crash information will be generated.\<newline>'',
           Call_abort]
   \<and> events_since armed (HandleCrash env_linux SIGFPE armed) ! 6
       = Call_SaveloadCrashWithMissingNewGRFs"
  using emergency_check_comes_first [of armed
      "env_linux\<lparr>TestEmergency := True, SaveloadCrashWithMissingNewGRFs := True\<rparr>" SIGFPE]
    emergency_check_comes_first [of armed env_linux SIGFPE]
  by (simp add: env_linux_def)

text \<open>
  Claim C10. The accesses \<^verbatim>\<open>messages[i]\<close> are not safe for every result of
  \<^verbatim>\<open>backtrace_symbols\<close>: with a call stack of two frames and \<^verbatim>\<open>NULL\<close> for the
  array, the first pass through the loop dereferences the null pointer.
\<close>

theorem LogStacktrace_null_messages:
  "LogStacktrace (env_linux\<lparr>symbols_malloc_fails := True\<rparr>) [] = Inl Null_dereference"
  by (simp add: LogStacktrace_def backtrace_def backtrace_symbols_def env_linux_def
      LogStacktrace_loop_None)

end
